theory Spec2Isabelle
  imports Main
begin

section \<open>Strings and the built-ins the program calls\<close>

text \<open>
  Command-line tokens are Python \<open>str\<close> values. They are modelled as \<open>string\<close>, a
  list of characters with code points 0 to 255; a token containing a code point above
  255 is outside the model. The three built-ins the program applies to tokens are
  \<open>str.startswith\<close>, \<open>str.split\<close> with a one-character separator, and \<open>int\<close>.
\<close>

definition startswith :: "string \<Rightarrow> string \<Rightarrow> bool" where
  "startswith s p = (take (length p) s = p)"

text \<open>
  \<open>s.split(sep)\<close>: the pieces between the occurrences of \<open>sep\<close>; never an empty
  list, and an empty piece for every two adjacent separators.
\<close>

fun str_split :: "char \<Rightarrow> string \<Rightarrow> string list" where
  "str_split sep [] = [[]]"
| "str_split sep (c # cs) =
     (if c = sep then [] # str_split sep cs
      else (c # hd (str_split sep cs)) # tl (str_split sep cs))"

text \<open>
  \<open>int(s)\<close> in base 10: white space is stripped at both ends, one sign may lead, then
  come decimal digits, where a single underscore may stand between two digits.
  Anything else raises \<open>ValueError\<close>, here \<open>None\<close>. Among the code points below 256
  the interpreter strips 9 to 13, 32, 133 and 160. The interpreter's configurable limit on
  the number of digits (4300 by default) is not part of the model.
\<close>

definition is_space :: "char \<Rightarrow> bool" where
  "is_space c = ((of_char c :: nat) \<in> {9, 10, 11, 12, 13, 32, 133, 160})"

definition is_digit :: "char \<Rightarrow> bool" where
  "is_digit c = (48 \<le> (of_char c :: nat) \<and> (of_char c :: nat) \<le> 57)"

definition digit_val :: "char \<Rightarrow> int" where
  "digit_val c = int (of_char c) - 48"

definition strip :: "string \<Rightarrow> string" where
  "strip s = rev (dropWhile is_space (rev (dropWhile is_space s)))"

fun digits :: "int \<Rightarrow> string \<Rightarrow> int option" where
  "digits acc [] = Some acc"
| "digits acc (c # cs) =
     (if is_digit c then digits (10 * acc + digit_val c) cs
      else if c = CHR ''_'' \<and> cs \<noteq> [] \<and> is_digit (hd cs) then digits acc cs
      else None)"

definition unsigned :: "string \<Rightarrow> int option" where
  "unsigned body = (if body \<noteq> [] \<and> is_digit (hd body) then digits 0 body else None)"

definition py_int :: "string \<Rightarrow> int option" where
  "py_int s =
     (case strip s of
        [] \<Rightarrow> None
      | c # cs \<Rightarrow>
          if c = CHR ''+'' then unsigned cs
          else if c = CHR ''-'' then map_option uminus (unsigned cs)
          else unsigned (c # cs))"

section \<open>Exceptions\<close>

text \<open>
  The program raises \<open>ValueError\<close> with four different messages: the conflict of the two
  output flags (\<open>Both -o and --output specified. Aborting.\<close>), a descending range
  (\<open>invalid range: r\<close>), a token with more than one dash
  (\<open>failed to parse page range: s\<close>) and the message of \<open>int\<close> itself
  (\<open>invalid literal for int() with base 10\<close>). \<open>IndexError\<close> comes from
  \<open>list.pop\<close>, \<open>deque.popleft\<close> and the page list; \<open>NameError\<close> from reading a
  name that is bound nowhere; \<open>LibraryError\<close> stands for any exception of the PDF
  library.
\<close>

datatype value_error =
    ConflictingFlags
  | InvalidRange string
  | FailedToParse string
  | InvalidLiteral string

datatype exn =
    ValueError value_error
  | IndexError
  | NameError string
  | LibraryError

section \<open>Page ranges\<close>

text \<open>
  The loop of \<open>parse_page_range\<close> over the comma-separated tokens; \<open>s\<close> is the whole
  range, which the message of the third branch quotes, and \<open>pages\<close> the set built so
  far. \<open>range(low, high + 1)\<close> is the interval from \<open>low\<close> to \<open>high\<close>.
\<close>

fun parse_ranges :: "string \<Rightarrow> string list \<Rightarrow> int set \<Rightarrow> exn + int set" where
  "parse_ranges s [] pages = Inr pages"
| "parse_ranges s (r # rs) pages =
     (case str_split CHR ''-'' r of
        [a] \<Rightarrow>
          (case py_int a of
             None \<Rightarrow> Inl (ValueError (InvalidLiteral a))
           | Some n \<Rightarrow> parse_ranges s rs (insert n pages))
      | [a, b] \<Rightarrow>
          (case py_int a of
             None \<Rightarrow> Inl (ValueError (InvalidLiteral a))
           | Some low \<Rightarrow>
               (case py_int b of
                  None \<Rightarrow> Inl (ValueError (InvalidLiteral b))
                | Some high \<Rightarrow>
                    if high < low then Inl (ValueError (InvalidRange r))
                    else parse_ranges s rs (pages \<union> {low..high})))
      | _ \<Rightarrow> Inl (ValueError (FailedToParse s)))"

definition parse_page_range :: "string \<Rightarrow> bool \<Rightarrow> exn + int set" where
  "parse_page_range s zero_index =
     (case parse_ranges s (str_split CHR '','' s) {} of
        Inl e \<Rightarrow> Inl e
      | Inr pages \<Rightarrow> Inr (if zero_index then (\<lambda>p. p - 1) ` pages else pages))"

section \<open>Operations\<close>

record operation =
  filename :: string
  page_range :: "string option"
  keep :: bool
  angle :: int

definition Operation :: "string \<Rightarrow> operation" where
  "Operation f = \<lparr>filename = f, page_range = None, keep = True, angle = 0\<rparr>"

definition pages_to_keep :: "operation \<Rightarrow> int \<Rightarrow> exn + int set" where
  "pages_to_keep self N =
     (let all_pages = {0..<N} in
      case page_range self of
        None \<Rightarrow> Inr all_pages
      | Some pr \<Rightarrow>
          (case parse_page_range pr True of
             Inl e \<Rightarrow> Inl e
           | Inr pages \<Rightarrow> if keep self then Inr pages else Inr (all_pages - pages)))"

section \<open>Extracting the output file\<close>

text \<open>
  \<open>args.index(x)\<close> is the position of the first occurrence of \<open>x\<close>; the program
  catches the \<open>ValueError\<close> of a missing element and takes \<open>-1\<close> instead.
\<close>

fun index :: "string list \<Rightarrow> string \<Rightarrow> nat option" where
  "index [] x = None"
| "index (a # as) x = (if a = x then Some 0 else map_option Suc (index as x))"

definition index_or_minus_one :: "string list \<Rightarrow> string \<Rightarrow> int" where
  "index_or_minus_one args x = (case index args x of None \<Rightarrow> - 1 | Some i \<Rightarrow> int i)"

text \<open>
  Python sequences accept a position from \<open>-len\<close> up to \<open>len - 1\<close>, the negative
  ones counting from the end; \<open>position\<close> is the position from the front, and
  \<open>wrap_index\<close> gives it, or nothing for a position outside this range, where Python
  raises \<open>IndexError\<close>.
  \<open>args.pop(i)\<close> returns the element at position \<open>i\<close> and the list without it.
\<close>

definition position :: "nat \<Rightarrow> int \<Rightarrow> nat" where
  "position len i = nat (if i < 0 then i + int len else i)"

definition wrap_index :: "nat \<Rightarrow> int \<Rightarrow> nat option" where
  "wrap_index len i =
     (if i < - int len \<or> int len \<le> i then None else Some (position len i))"

definition pop :: "'a list \<Rightarrow> int \<Rightarrow> exn + ('a \<times> 'a list)" where
  "pop xs i =
     (case wrap_index (length xs) i of
        None \<Rightarrow> Inl IndexError
      | Some k \<Rightarrow> Inr (xs ! k, take k xs @ drop (Suc k) xs))"

text \<open>
  \<open>parse_output_file\<close> returns the output file together with the argument list as the
  two \<open>pop\<close>s leave it.
\<close>

definition parse_output_file :: "string list \<Rightarrow> exn + (string \<times> string list)" where
  "parse_output_file args =
     (let idx_o = index_or_minus_one args ''-o'';
          idx_output = index_or_minus_one args ''--output''
      in if idx_o > 0 \<and> idx_output > 0 then Inl (ValueError ConflictingFlags)
         else let idx = max idx_o idx_output in
           if idx = - 1 then Inr (''combined.pdf'', args)
           else (case pop args (idx + 1) of
                   Inl e \<Rightarrow> Inl e
                 | Inr (outfile, args1) \<Rightarrow>
                     (case pop args1 idx of
                        Inl e \<Rightarrow> Inl e
                      | Inr (flag, args2) \<Rightarrow> Inr (outfile, args2))))"

section \<open>Files, messages and the outcome of a run\<close>

text \<open>
  A path names a PDF document with its pages, some other file, a directory, or nothing.
  The type \<open>'p\<close> of pages belongs to the PDF library.
\<close>

datatype 'p entry = PdfFile "'p list" | OtherFile | Directory

definition path_exists :: "(string \<rightharpoonup> 'p entry) \<Rightarrow> string \<Rightarrow> bool" where
  "path_exists fs name = (fs name \<noteq> None)"

definition path_isfile :: "(string \<rightharpoonup> 'p entry) \<Rightarrow> string \<Rightarrow> bool" where
  "path_isfile fs name =
     (case fs name of Some (PdfFile pages) \<Rightarrow> True | Some OtherFile \<Rightarrow> True | _ \<Rightarrow> False)"

text \<open>
  The lines the program prints: the usage text, the message of a \<open>ValueError\<close> of
  \<open>parse_output_file\<close>, \<open>Output file ... already exists. Aborting.\<close>,
  \<open>File ... does not exist. Aborting.\<close>, \<open>error: ...\<close> with the message of a
  \<open>ValueError\<close> of \<open>pages_to_keep\<close>, and \<open>Saved combined PDF to ...\<close>.
\<close>

datatype message =
    Usage
  | ErrorText value_error
  | OutputExists string
  | FileMissing string
  | RangeError value_error
  | Saved string

text \<open>
  \<open>main\<close> stops early either by printing one message and returning, or by an
  exception that nothing catches.
\<close>

datatype stop = Return message | Raise exn

record 'p run =
  raised :: "exn option"
  stdout :: "message list"
  files :: "string \<rightharpoonup> 'p entry"

definition stopped :: "stop \<Rightarrow> (string \<rightharpoonup> 'p entry) \<Rightarrow> 'p run" where
  "stopped st fs =
     (case st of
        Return m \<Rightarrow> \<lparr>raised = None, stdout = [m], files = fs\<rparr>
      | Raise e \<Rightarrow> \<lparr>raised = Some e, stdout = [], files = fs\<rparr>)"

section \<open>Grouping the arguments into operations\<close>

text \<open>
  The inner loop of \<open>main\<close>: while the next token starts with a dash, two tokens are
  popped. \<open>popleft\<close> on the empty queue raises \<open>IndexError\<close>. The last branch
  formats its message from the name \<open>current\<close>, which is bound nowhere in the module,
  so evaluating the message raises \<open>NameError\<close> before anything is printed.
\<close>

fun parse_flags :: "operation \<Rightarrow> string list \<Rightarrow> stop + (operation \<times> string list)" where
  "parse_flags operation [] = Inr (operation, [])"
| "parse_flags operation (cmd # rest) =
     (if \<not> startswith cmd ''-'' then Inr (operation, cmd # rest)
      else (case rest of
              [] \<Rightarrow> Inl (Raise IndexError)
            | val # rest' \<Rightarrow>
                if cmd = ''-k'' \<or> cmd = ''--keep''
                then parse_flags (operation\<lparr>keep := True, page_range := Some val\<rparr>) rest'
                else if cmd = ''-r'' \<or> cmd = ''--remove''
                then parse_flags (operation\<lparr>keep := False, page_range := Some val\<rparr>) rest'
                else if cmd = ''-a'' \<or> cmd = ''--angle''
                then (case py_int val of
                        None \<Rightarrow> Inl (Raise (ValueError (InvalidLiteral val)))
                      | Some a \<Rightarrow> parse_flags (operation\<lparr>angle := a\<rparr>) rest')
                else Inl (Raise (NameError ''current''))))"

lemma parse_flags_length:
  "parse_flags operation args = Inr (operation', args') \<Longrightarrow> length args' \<le> length args"
proof (induction operation args rule: parse_flags.induct)
  case (1 operation)
  then show ?case by simp
next
  case (2 operation cmd rest)
  show ?case
  proof (cases "startswith cmd ''-''")
    case False
    with "2.prems" show ?thesis by simp
  next
    case dash: True
    show ?thesis
    proof (cases rest)
      case Nil
      with dash "2.prems" show ?thesis by simp
    next
      case (Cons val rest')
      consider (k) "cmd = ''-k'' \<or> cmd = ''--keep''"
        | (r) "\<not> (cmd = ''-k'' \<or> cmd = ''--keep'')" "cmd = ''-r'' \<or> cmd = ''--remove''"
        | (a) "\<not> (cmd = ''-k'' \<or> cmd = ''--keep'')" "\<not> (cmd = ''-r'' \<or> cmd = ''--remove'')"
              "cmd = ''-a'' \<or> cmd = ''--angle''"
        | (other) "\<not> (cmd = ''-k'' \<or> cmd = ''--keep'')" "\<not> (cmd = ''-r'' \<or> cmd = ''--remove'')"
              "\<not> (cmd = ''-a'' \<or> cmd = ''--angle'')"
        by blast
      then show ?thesis
      proof cases
        case k
        have "parse_flags (operation\<lparr>keep := True, page_range := Some val\<rparr>) rest' = Inr (operation', args')"
          using "2.prems" dash Cons k by (simp only: parse_flags.simps list.case if_True if_False not_not simp_thms)
        with "2.IH"(1)[of val rest'] dash Cons k have "length args' \<le> length rest'" by blast
        with Cons show ?thesis by simp
      next
        case r
        have "parse_flags (operation\<lparr>keep := False, page_range := Some val\<rparr>) rest' = Inr (operation', args')"
          using "2.prems" dash Cons r by (simp only: parse_flags.simps list.case if_True if_False not_not simp_thms)
        with "2.IH"(2)[of val rest'] dash Cons r have "length args' \<le> length rest'" by blast
        with Cons show ?thesis by simp
      next
        case a
        have *: "(case py_int val of
                        None \<Rightarrow> Inl (Raise (ValueError (InvalidLiteral val)))
                      | Some a \<Rightarrow> parse_flags (operation\<lparr>angle := a\<rparr>) rest') = Inr (operation', args')"
          using "2.prems" dash Cons a by (simp only: parse_flags.simps list.case if_True if_False not_not simp_thms)
        then obtain n where n: "py_int val = Some n"
          and **: "parse_flags (operation\<lparr>angle := n\<rparr>) rest' = Inr (operation', args')"
          by (cases "py_int val") simp_all
        with "2.IH"(3)[of val rest' n] dash Cons a have "length args' \<le> length rest'" by blast
        with Cons show ?thesis by simp
      next
        case other
        have False
          using "2.prems" dash Cons other by (simp only: parse_flags.simps list.case if_True if_False not_not simp_thms sum.distinct)
        then show ?thesis ..
      qed
    qed
  qed
qed

text \<open>The outer loop: one file name, then its flags.\<close>

function parse_operations ::
  "(string \<rightharpoonup> 'p entry) \<Rightarrow> string list \<Rightarrow> operation list \<Rightarrow> stop + operation list" where
  "parse_operations fs [] operations = Inr operations"
| "parse_operations fs (last_file # rest) operations =
     (if \<not> path_isfile fs last_file then Inl (Return (FileMissing last_file))
      else (case parse_flags (Operation last_file) rest of
              Inl st \<Rightarrow> Inl st
            | Inr (operation, rest') \<Rightarrow>
                parse_operations fs rest' (operations @ [operation])))"
  by pat_completeness auto
termination
  by (relation "measure (\<lambda>(fs, args, operations). length args)")
     (auto dest: parse_flags_length)

section \<open>Combining the documents\<close>

text \<open>
  \<open>reader.pages[i]\<close>: the page list of the library is indexed as a Python sequence.
\<close>

definition page_at :: "'p list \<Rightarrow> int \<Rightarrow> exn + 'p" where
  "page_at pages i =
     (case wrap_index (length pages) i of
        None \<Rightarrow> Inl IndexError
      | Some k \<Rightarrow> Inr (pages ! k))"

text \<open>
  The loop over the pages of one operation. \<open>rot\<close> is the rotation of the PDF
  library, which may raise; \<open>writer\<close> is the list of pages added so far. The page is
  added first and the last page of the writer is rotated afterwards.
\<close>

fun add_pages ::
  "(int \<Rightarrow> 'p \<Rightarrow> exn + 'p) \<Rightarrow> 'p list \<Rightarrow> int \<Rightarrow> int list \<Rightarrow> 'p list \<Rightarrow> exn + 'p list" where
  "add_pages rot pages ang [] writer = Inr writer"
| "add_pages rot pages ang (i # rest) writer =
     (case page_at pages i of
        Inl e \<Rightarrow> Inl e
      | Inr p \<Rightarrow>
          (let writer1 = writer @ [p] in
           if ang \<noteq> 0
           then (case rot ang (last writer1) of
                   Inl e \<Rightarrow> Inl e
                 | Inr p' \<Rightarrow> add_pages rot pages ang rest (butlast writer1 @ [p']))
           else add_pages rot pages ang rest writer1))"

text \<open>
  The loop over the operations. \<open>for i in pages_to_keep\<close> walks a Python set, whose
  order the language leaves to the interpreter. In an interpreter this order follows from
  the way the set was built, and \<open>pages_to_keep\<close> builds it from the operation and the
  page count alone: \<open>iter oper N S\<close> is the list in which the interpreter enumerates
  the set \<open>S\<close> that \<open>pages_to_keep\<close> has built for the operation \<open>oper\<close> and the
  page count \<open>N\<close>. Two operations with the same set may so be enumerated in different
  orders. Only a \<open>ValueError\<close> of \<open>pages_to_keep\<close> is caught; opening something
  that is not a PDF document raises in the library.
\<close>

fun combine ::
  "(operation \<Rightarrow> int \<Rightarrow> int set \<Rightarrow> int list) \<Rightarrow> (int \<Rightarrow> 'p \<Rightarrow> exn + 'p) \<Rightarrow>
   (string \<rightharpoonup> 'p entry) \<Rightarrow> operation list \<Rightarrow> 'p list \<Rightarrow> stop + 'p list" where
  "combine iter rot fs [] writer = Inr writer"
| "combine iter rot fs (oper # rest) writer =
     (case fs (filename oper) of
        Some (PdfFile pages) \<Rightarrow>
          (case pages_to_keep oper (int (length pages)) of
             Inl (ValueError e) \<Rightarrow> Inl (Return (RangeError e))
           | Inl e \<Rightarrow> Inl (Raise e)
           | Inr selected \<Rightarrow>
               (case add_pages rot pages (angle oper)
                       (iter oper (int (length pages)) selected) writer of
                  Inl e \<Rightarrow> Inl (Raise e)
                | Inr writer' \<Rightarrow> combine iter rot fs rest writer'))
      | _ \<Rightarrow> Inl (Raise LibraryError))"

section \<open>The program\<close>

text \<open>
  \<open>main\<close> on the arguments after the program name and a file system. The output file
  is written in the last step only, and the write itself is taken to succeed.
\<close>

definition main ::
  "(operation \<Rightarrow> int \<Rightarrow> int set \<Rightarrow> int list) \<Rightarrow> (int \<Rightarrow> 'p \<Rightarrow> exn + 'p) \<Rightarrow>
   string list \<Rightarrow> (string \<rightharpoonup> 'p entry) \<Rightarrow> 'p run" where
  "main iter rot args_to_process fs =
     (if args_to_process = [] \<or> ''-h'' \<in> set args_to_process
         \<or> ''--help'' \<in> set args_to_process
      then \<lparr>raised = None, stdout = [Usage], files = fs\<rparr>
      else (case parse_output_file args_to_process of
              Inl (ValueError e) \<Rightarrow> stopped (Return (ErrorText e)) fs
            | Inl e \<Rightarrow> stopped (Raise e) fs
            | Inr (outfile, args) \<Rightarrow>
                if path_exists fs outfile then stopped (Return (OutputExists outfile)) fs
                else (case parse_operations fs args [] of
                        Inl st \<Rightarrow> stopped st fs
                      | Inr operations \<Rightarrow>
                          (case combine iter rot fs operations [] of
                             Inl st \<Rightarrow> stopped st fs
                           | Inr writer \<Rightarrow>
                               \<lparr>raised = None, stdout = [Saved outfile],
                                files = fs(outfile \<mapsto> PdfFile writer)\<rparr>))))"

section \<open>The range grammar as the specification words it\<close>

text \<open>
  The specification describes a range as a comma-separated list of tokens: a single
  integer \<open>N\<close> stands for the set of \<open>N\<close> alone, a pair \<open>LOW-HIGH\<close> for the
  inclusive interval, which must not be descending; the sets of all tokens are united, and
  every value is decremented by one unless the one-indexed form is asked for.
  \<open>spec_token_pages\<close> and \<open>spec_parse\<close> follow these words; they are compared
  with \<open>parse_page_range\<close> below.
\<close>

definition spec_token_pages :: "string \<Rightarrow> int set option" where
  "spec_token_pages r =
     (case str_split CHR ''-'' r of
        [a] \<Rightarrow> (case py_int a of None \<Rightarrow> None | Some n \<Rightarrow> Some {n})
      | [a, b] \<Rightarrow>
          (case py_int a of
             None \<Rightarrow> None
           | Some low \<Rightarrow>
               (case py_int b of
                  None \<Rightarrow> None
                | Some high \<Rightarrow> if high < low then None else Some {low..high}))
      | _ \<Rightarrow> None)"

definition spec_parse :: "string \<Rightarrow> bool \<Rightarrow> int set option" where
  "spec_parse s zero_index =
     (let ts = map spec_token_pages (str_split CHR '','' s) in
      if None \<in> set ts then None
      else Some (let u = \<Union> (set (map the ts)) in
                 if zero_index then (\<lambda>p. p - 1) ` u else u))"

text \<open>
  A pair token whose two parts are integers with the second below the first, such as
  \<open>5-3\<close>.
\<close>

definition descending_pair :: "string \<Rightarrow> bool" where
  "descending_pair r =
     (case str_split CHR ''-'' r of
        [a, b] \<Rightarrow>
          (case py_int a of
             None \<Rightarrow> False
           | Some low \<Rightarrow> (case py_int b of None \<Rightarrow> False | Some high \<Rightarrow> high < low))
      | _ \<Rightarrow> False)"

section \<open>What an operation adds to the output\<close>

text \<open>
  \<open>page_added\<close> relates a page index to the page that the loop of one operation
  appends for it: the page found at the index, rotated when the angle is not zero.
  \<open>page_from\<close> says the same of a position in the document, counted from 0 at its
  first page. \<open>contributes\<close> says that a list of pages is what an operation appends:
  one page for every index in the list in which the interpreter enumerates the set of
  \<open>pages_to_keep\<close>, in the order of this list. \<open>range_or_index_failure\<close> says
  that an operation fails with a range that does not parse or with a page index outside
  its document.
\<close>

definition page_added :: "(int \<Rightarrow> 'p \<Rightarrow> exn + 'p) \<Rightarrow> 'p list \<Rightarrow> int \<Rightarrow> int \<Rightarrow> 'p \<Rightarrow> bool" where
  "page_added rot pages ang i q =
     (case page_at pages i of
        Inl e \<Rightarrow> False
      | Inr p \<Rightarrow> if ang \<noteq> 0 then rot ang p = Inr q else q = p)"


definition contributes ::
  "(operation \<Rightarrow> int \<Rightarrow> int set \<Rightarrow> int list) \<Rightarrow> (int \<Rightarrow> 'p \<Rightarrow> exn + 'p) \<Rightarrow>
   (string \<rightharpoonup> 'p entry) \<Rightarrow> operation \<Rightarrow> 'p list \<Rightarrow> bool" where
  "contributes iter rot fs oper added =
     (case fs (filename oper) of
        Some (PdfFile pages) \<Rightarrow>
          (case pages_to_keep oper (int (length pages)) of
             Inl e \<Rightarrow> False
           | Inr selected \<Rightarrow>
               list_all2 (page_added rot pages (angle oper))
                 (iter oper (int (length pages)) selected) added)
      | _ \<Rightarrow> False)"

definition range_or_index_failure ::
  "(operation \<Rightarrow> int \<Rightarrow> int set \<Rightarrow> int list) \<Rightarrow> (string \<rightharpoonup> 'p entry) \<Rightarrow> operation \<Rightarrow> bool" where
  "range_or_index_failure iter fs oper =
     (case fs (filename oper) of
        Some (PdfFile pages) \<Rightarrow>
          (case pages_to_keep oper (int (length pages)) of
             Inl e \<Rightarrow> True
           | Inr selected \<Rightarrow>
               (\<exists>i\<in>set (iter oper (int (length pages)) selected).
                  page_at pages i = Inl IndexError))
      | _ \<Rightarrow> False)"

section \<open>Concrete interpreters, documents and file systems\<close>

text \<open>
  Two interpreters, one that enumerates every set in ascending and one in descending
  order, whatever the operation; a rotation in the way of
  the PDF library, which adds the angle to the rotation of the page and refuses an angle
  that is not a multiple of 90; a document of \<open>n\<close> pages, each a pair of its
  one-indexed number and its rotation; and a file system holding this document as
  \<open>a.pdf\<close> and nothing else.
\<close>

definition ascending :: "operation \<Rightarrow> int \<Rightarrow> int set \<Rightarrow> int list" where
  "ascending oper N S = sorted_list_of_set S"

definition descending :: "operation \<Rightarrow> int \<Rightarrow> int set \<Rightarrow> int list" where
  "descending oper N S = rev (sorted_list_of_set S)"

definition rotate_page :: "int \<Rightarrow> nat \<times> int \<Rightarrow> exn + nat \<times> int" where
  "rotate_page a p = (if a mod 90 \<noteq> 0 then Inl LibraryError else Inr (fst p, snd p + a))"

definition document :: "nat \<Rightarrow> (nat \<times> int) list" where
  "document n = map (\<lambda>k. (k, 0)) [1..<Suc n]"

definition one_file :: "nat \<Rightarrow> string \<rightharpoonup> (nat \<times> int) entry" where
  "one_file n = [''a.pdf'' \<mapsto> PdfFile (document n)]"

section \<open>Properties of the range parser\<close>

lemma parse_ranges_spec:
  "(parse_ranges s rs P = Inr S) =
     ((\<forall>r\<in>set rs. spec_token_pages r \<noteq> None) \<and>
      S = P \<union> (\<Union>r\<in>set rs. the (spec_token_pages r)))"
proof (induction rs arbitrary: P)
  case Nil
  show ?case by auto
next
  case (Cons r rs)
  show ?case
    by (auto simp: Cons.IH spec_token_pages_def split: list.splits option.splits)
qed

lemma parse_page_range_spec:
  "(parse_page_range s z = Inr S) = (spec_parse s z = Some S)"
proof (cases "parse_ranges s (str_split CHR '','' s) {}")
  case (Inl e)
  have "\<not> (\<forall>r\<in>set (str_split CHR '','' s). spec_token_pages r \<noteq> None)"
  proof
    assume "\<forall>r\<in>set (str_split CHR '','' s). spec_token_pages r \<noteq> None"
    then have "parse_ranges s (str_split CHR '','' s) {} =
        Inr ({} \<union> (\<Union>r\<in>set (str_split CHR '','' s). the (spec_token_pages r)))"
      by (simp only: parse_ranges_spec simp_thms)
    with Inl show False by simp
  qed
  then have "None \<in> set (map spec_token_pages (str_split CHR '','' s))"
    by force
  with Inl show ?thesis
    by (simp add: parse_page_range_def spec_parse_def)
next
  case (Inr P)
  then have ok: "\<forall>r\<in>set (str_split CHR '','' s). spec_token_pages r \<noteq> None"
    and P: "P = (\<Union>r\<in>set (str_split CHR '','' s). the (spec_token_pages r))"
    by (simp_all add: parse_ranges_spec)
  from ok have "None \<notin> set (map spec_token_pages (str_split CHR '','' s))"
    by force
  with Inr P show ?thesis
    by (auto simp: parse_page_range_def spec_parse_def)
qed

text \<open>
  Claim C7. The range \<open>1-2,4\<close> parses to the pages 0, 1 and 3 in the zero-indexed mode
  and to 1, 2 and 4 in the one-indexed mode. In general the parser returns a set exactly
  when every comma-separated token is a single integer or an ascending pair, and the set
  is then the union of the tokens' sets, each value decremented by one in the
  zero-indexed mode; as the result is a set, a page named twice occurs once.
\<close>

theorem parse_page_range_union:
  "parse_page_range ''1-2,4'' True = Inr {0, 1, 3} \<and>
   parse_page_range ''1-2,4'' False = Inr {1, 2, 4} \<and>
   ((parse_page_range s zero_index = Inr S) = (spec_parse s zero_index = Some S))"
proof -
  have "parse_page_range ''1-2,4'' True = Inr {0, 1, 3}"
    by code_simp
  moreover have "parse_page_range ''1-2,4'' False = Inr {1, 2, 4}"
    by code_simp
  ultimately show ?thesis
    by (simp only: parse_page_range_spec simp_thms)
qed

theorem parse_page_range_union_witness:
  "spec_parse ''3,1-2,2'' True = Some {0, 1, 2} \<and>
   parse_page_range ''3,1-2,2'' True = Inr {0, 1, 2}"
proof -
  have h: "spec_parse ''3,1-2,2'' True = Some {0, 1, 2}"
    by code_simp
  from parse_page_range_union [of "''3,1-2,2''" True "{0, 1, 2}"]
  have "(parse_page_range ''3,1-2,2'' True = Inr {0, 1, 2}) =
        (spec_parse ''3,1-2,2'' True = Some {0, 1, 2})"
    by (elim conjE)
  with h show ?thesis by simp
qed

section \<open>Properties of the page set of an operation\<close>

text \<open>
  Claim C6. Whatever the page count \<open>N\<close> and the value of \<open>keep\<close>, an operation
  without a range keeps the full page set, the pages 0 to \<open>N - 1\<close>.
\<close>

theorem pages_to_keep_no_range:
  "pages_to_keep (self\<lparr>page_range := None, keep := k\<rparr>) N = Inr {0..<N}"
  by (simp add: pages_to_keep_def)

text \<open>
  Claim C5. If a range parses to the set \<open>S\<close>, the operation that removes this range
  keeps the pages 0 to \<open>N - 1\<close> without those of \<open>S\<close>. The elements of \<open>S\<close>
  outside 0 to \<open>N - 1\<close> have no effect: a range whose set agrees with \<open>S\<close> inside
  this interval gives the same result.
\<close>

theorem pages_to_keep_remove:
  assumes "parse_page_range pr True = Inr S"
  shows "pages_to_keep (self\<lparr>page_range := Some pr, keep := False\<rparr>) N = Inr ({0..<N} - S) \<and>
         (\<forall>pr' S'. parse_page_range pr' True = Inr S' \<longrightarrow> S' \<inter> {0..<N} = S \<inter> {0..<N} \<longrightarrow>
            pages_to_keep (self\<lparr>page_range := Some pr', keep := False\<rparr>) N =
            pages_to_keep (self\<lparr>page_range := Some pr, keep := False\<rparr>) N)"
proof -
  have eq: "pages_to_keep (self\<lparr>page_range := Some q, keep := False\<rparr>) N = Inr ({0..<N} - T)"
    if "parse_page_range q True = Inr T" for q T
    using that by (simp add: pages_to_keep_def)
  show ?thesis
  proof (intro conjI allI impI)
    show "pages_to_keep (self\<lparr>page_range := Some pr, keep := False\<rparr>) N = Inr ({0..<N} - S)"
      using assms by (rule eq)
  next
    fix pr' S'
    assume a: "parse_page_range pr' True = Inr S'" and b: "S' \<inter> {0..<N} = S \<inter> {0..<N}"
    from b have "{0..<N} - S' = {0..<N} - S"
      by blast
    then show "pages_to_keep (self\<lparr>page_range := Some pr', keep := False\<rparr>) N =
               pages_to_keep (self\<lparr>page_range := Some pr, keep := False\<rparr>) N"
      by (simp only: eq [OF a] eq [OF assms])
  qed
qed

theorem pages_to_keep_remove_witness:
  "parse_page_range ''1-2,9'' True = Inr {0, 1, 8} \<and>
   pages_to_keep (Operation ''a.pdf''\<lparr>page_range := Some ''1-2,9'', keep := False\<rparr>) 4
     = Inr {2, 3} \<and>
   pages_to_keep (Operation ''a.pdf''\<lparr>page_range := Some ''2,1'', keep := False\<rparr>) 4
     = Inr {2, 3}"
proof -
  have h: "parse_page_range ''1-2,9'' True = Inr {0, 1, 8}"
    by code_simp
  have h': "parse_page_range ''2,1'' True = Inr {0, 1}"
    by code_simp
  have d: "{0..<4} - {0, 1, 8} = {2, 3 :: int}"
    by code_simp
  have i: "{0, 1} \<inter> {0..<4} = {0, 1, 8} \<inter> {0..<4::int}"
    by code_simp
  note inst = pages_to_keep_remove [OF h, of "Operation ''a.pdf''" 4]
  from inst have a: "pages_to_keep (Operation ''a.pdf''\<lparr>page_range := Some ''1-2,9'', keep := False\<rparr>) 4
      = Inr ({0..<4} - {0, 1, 8})"
    by (rule conjunct1)
  from inst h' i have c: "pages_to_keep (Operation ''a.pdf''\<lparr>page_range := Some ''2,1'', keep := False\<rparr>) 4
      = pages_to_keep (Operation ''a.pdf''\<lparr>page_range := Some ''1-2,9'', keep := False\<rparr>) 4"
    by blast
  from h a c d show ?thesis
    by (simp only: simp_thms)
qed

section \<open>Bounds of the page set\<close>

text \<open>
  Claim C4, as amended. For an operation without a range, or one that removes pages,
  every element of \<open>pages_to_keep N\<close> is at least 0 and below \<open>N\<close>.
\<close>

theorem pages_to_keep_in_bounds:
  assumes "pages_to_keep self N = Inr S" and "page_range self = None \<or> \<not> keep self"
    and "p \<in> S"
  shows "0 \<le> p \<and> p < N"
  using assms
  by (auto simp: pages_to_keep_def Let_def split: option.splits sum.splits if_splits)

text \<open>The amended claim at the removal of \<open>1-2,9\<close> from four pages, for page 3.\<close>

theorem pages_to_keep_in_bounds_witness:
  "pages_to_keep (Operation ''a.pdf''\<lparr>page_range := Some ''1-2,9'', keep := False\<rparr>) 4
     = Inr {2, 3} \<and> (0::int) \<le> 3 \<and> (3::int) < 4"
proof -
  have a: "pages_to_keep (Operation ''a.pdf''\<lparr>page_range := Some ''1-2,9'', keep := False\<rparr>) 4
     = Inr {2, 3}" by code_simp
  have b: "page_range (Operation ''a.pdf''\<lparr>page_range := Some ''1-2,9'', keep := False\<rparr>) = None
     \<or> \<not> keep (Operation ''a.pdf''\<lparr>page_range := Some ''1-2,9'', keep := False\<rparr>)" by simp
  have c: "(3::int) \<in> {2, 3}" by simp
  from pages_to_keep_in_bounds [OF a b c] a show ?thesis
    by (simp only: simp_thms)
qed

text \<open>
  The claim as first stated fails for \<open>--keep 7\<close> on a document of three pages: the
  page set holds 6, which is not below 3.
\<close>

theorem pages_to_keep_keep_counterexample:
  "pages_to_keep (Operation ''a.pdf''\<lparr>page_range := Some ''7'', keep := True\<rparr>) 3 = Inr {6}
   \<and> \<not> (6::int) < 3"
  by code_simp

section \<open>Descending ranges\<close>

lemma descending_pair_no_pages: "descending_pair r \<Longrightarrow> spec_token_pages r = None"
  by (auto simp: descending_pair_def spec_token_pages_def split: list.splits option.splits)

lemma parse_ranges_descending:
  "descending_pair r \<Longrightarrow> parse_ranges s (r # post) P = Inl (ValueError (InvalidRange r))"
  by (auto simp: descending_pair_def split: list.splits option.splits)

lemma parse_ranges_ValueError:
  "parse_ranges s rs P = Inl e \<Longrightarrow> \<exists>v. e = ValueError v"
proof (induction rs arbitrary: P)
  case Nil
  then show ?case by simp
next
  case (Cons r rs)
  then show ?case
    by (auto split: list.splits option.splits if_splits)
qed

lemma parse_ranges_prefix:
  "\<forall>t\<in>set pre. spec_token_pages t \<noteq> None \<Longrightarrow>
   \<exists>Q. parse_ranges s (pre @ rs) P = parse_ranges s rs Q"
proof (induction pre arbitrary: P)
  case Nil
  show ?case by auto
next
  case (Cons t pre)
  from Cons.prems have t: "spec_token_pages t \<noteq> None"
    and pre: "\<forall>t\<in>set pre. spec_token_pages t \<noteq> None"
    by simp_all
  from t obtain Q where "parse_ranges s ((t # pre) @ rs) P = parse_ranges s (pre @ rs) Q"
    by (auto simp: spec_token_pages_def split: list.splits option.splits if_splits)
  with Cons.IH [OF pre] show ?case by metis
qed

text \<open>
  Claim C8, as amended. A range that contains a descending pair token never parses to a
  set: the parser raises \<open>ValueError\<close>. The error is the invalid-range error that
  names the token when every token before it is a single integer or an ascending pair.
\<close>

theorem descending_pair_fails:
  assumes "r \<in> set (str_split CHR '','' s)" and "descending_pair r"
  shows "(\<exists>v. parse_page_range s zero_index = Inl (ValueError v)) \<and>
         (\<forall>pre post. str_split CHR '','' s = pre @ r # post \<longrightarrow>
            (\<forall>t\<in>set pre. spec_token_pages t \<noteq> None) \<longrightarrow>
            parse_page_range s zero_index = Inl (ValueError (InvalidRange r)))"
proof (intro conjI allI impI)
  have "parse_ranges s (str_split CHR '','' s) {} \<noteq> Inr S" for S
    using assms descending_pair_no_pages by (auto simp: parse_ranges_spec)
  then obtain e where e: "parse_ranges s (str_split CHR '','' s) {} = Inl e"
    by (cases "parse_ranges s (str_split CHR '','' s) {}") auto
  with parse_ranges_ValueError obtain v where "e = ValueError v"
    by blast
  with e show "\<exists>v. parse_page_range s zero_index = Inl (ValueError v)"
    by (simp add: parse_page_range_def)
next
  fix pre post
  assume split: "str_split CHR '','' s = pre @ r # post"
    and pre: "\<forall>t\<in>set pre. spec_token_pages t \<noteq> None"
  from parse_ranges_prefix [OF pre] obtain Q
    where "parse_ranges s (pre @ r # post) {} = parse_ranges s (r # post) Q"
    by blast
  with split assms(2) show "parse_page_range s zero_index = Inl (ValueError (InvalidRange r))"
    by (simp add: parse_page_range_def parse_ranges_descending del: parse_ranges.simps)
qed

text \<open>
  The amended claim at the range \<open>1,5-3,x\<close>: the token \<open>5-3\<close> follows the valid
  token \<open>1\<close>.
\<close>

theorem descending_pair_fails_witness:
  "parse_page_range ''1,5-3,x'' True = Inl (ValueError (InvalidRange ''5-3''))"
proof -
  have a: "''5-3'' \<in> set (str_split CHR '','' ''1,5-3,x'')" by code_simp
  have b: "descending_pair ''5-3''" by code_simp
  have c: "str_split CHR '','' ''1,5-3,x'' = [''1''] @ ''5-3'' # [''x'']" by code_simp
  have d: "\<forall>t\<in>set [''1'']. spec_token_pages t \<noteq> None" by code_simp
  from descending_pair_fails [OF a b, of True] c d show ?thesis
    by blast
qed

text \<open>
  The claim as first stated fails at the range \<open>1-2-3,5-3\<close>: it contains the
  descending pair \<open>5-3\<close>, and the parser stops at the token \<open>1-2-3\<close> with the
  error for a token of more than one dash.
\<close>

theorem descending_pair_later_counterexample:
  "descending_pair ''5-3'' \<and>
   parse_page_range ''1-2-3,5-3'' True = Inl (ValueError (FailedToParse ''1-2-3,5-3''))"
  by code_simp

section \<open>The output flags\<close>

lemma both_flags_conflict:
  assumes "index args ''-o'' = Some i" and "index args ''--output'' = Some j"
    and "0 < i" and "0 < j"
  shows "parse_output_file args = Inl (ValueError ConflictingFlags)"
  using assms by (simp add: parse_output_file_def index_or_minus_one_def)

text \<open>
  Claim C2 asks for the conflict error whenever both \<open>-o\<close> and \<open>--output\<close> are
  present, also at position 0. With \<open>-o\<close> as the first token the test
  \<open>idx_o > 0\<close> is false: the extraction returns the value of \<open>--output\<close> and
  leaves \<open>-o\<close> in the list, and the run ends with the message that the file \<open>-o\<close>
  does not exist.
\<close>

theorem both_flags_first_position:
  "parse_output_file [''-o'', ''a.pdf'', ''--output'', ''b.pdf'']
     = Inr (''b.pdf'', [''-o'', ''a.pdf'']) \<and>
   stdout (main ascending rotate_page [''-o'', ''a.pdf'', ''--output'', ''b.pdf''] (one_file 3))
     = [FileMissing ''-o'']"
  by code_simp

text \<open>
  Claim C10, as amended. The extraction works on the larger of the first positions of
  \<open>-o\<close> and \<open>--output\<close>. When this position is the last of a non-empty argument
  list and the two flags are not both found after position 0, the token after the flag is
  popped out of range: the extraction raises \<open>IndexError\<close>, which nothing catches, so
  a run without a help flag ends with this exception, prints nothing and writes nothing.
\<close>

theorem flag_without_value:
  assumes "args \<noteq> []"
    and "max (index_or_minus_one args ''-o'') (index_or_minus_one args ''--output'')
           = int (length args) - 1"
    and "\<not> (0 < index_or_minus_one args ''-o'' \<and> 0 < index_or_minus_one args ''--output'')"
  shows "parse_output_file args = Inl IndexError \<and>
         (''-h'' \<notin> set args \<and> ''--help'' \<notin> set args \<longrightarrow>
            main iter rot args fs = \<lparr>raised = Some IndexError, stdout = [], files = fs\<rparr>)"
proof -
  from assms(1) have "int (length args) - 1 \<noteq> - 1"
    by simp
  with assms(2,3) have p: "parse_output_file args = Inl IndexError"
    by (simp add: parse_output_file_def Let_def pop_def wrap_index_def position_def)
  with assms(1) show ?thesis
    by (simp add: main_def stopped_def)
qed

text \<open>The amended claim at the arguments \<open>a.pdf -o\<close>.\<close>

theorem flag_without_value_witness:
  "parse_output_file [''a.pdf'', ''-o''] = Inl IndexError \<and>
   main ascending rotate_page [''a.pdf'', ''-o''] (one_file 3)
     = \<lparr>raised = Some IndexError, stdout = [], files = one_file 3\<rparr>"
proof -
  have a: "[''a.pdf'', ''-o''] \<noteq> []" by simp
  have b: "max (index_or_minus_one [''a.pdf'', ''-o''] ''-o'')
               (index_or_minus_one [''a.pdf'', ''-o''] ''--output'')
           = int (length [''a.pdf'', ''-o'']) - 1" by code_simp
  have c: "\<not> (0 < index_or_minus_one [''a.pdf'', ''-o''] ''-o''
             \<and> 0 < index_or_minus_one [''a.pdf'', ''-o''] ''--output'')" by code_simp
  have d: "''-h'' \<notin> set [''a.pdf'', ''-o''] \<and> ''--help'' \<notin> set [''a.pdf'', ''-o'']" by code_simp
  from flag_without_value [OF a b c, of ascending rotate_page "one_file 3"] d show ?thesis
    by blast
qed

text \<open>
  The claim as first stated fails where \<open>-o\<close> is the final token and
  \<open>--output\<close> stands earlier with its value: the extraction reports the conflict of
  the two flags. It fails as well where an earlier \<open>-o\<close> has a value: the extraction
  takes that one and returns.
\<close>

theorem final_flag_counterexample:
  "parse_output_file [''a.pdf'', ''--output'', ''x.pdf'', ''-o''] = Inl (ValueError ConflictingFlags)
   \<and> parse_output_file [''a.pdf'', ''-o'', ''x.pdf'', ''-o''] = Inr (''x.pdf'', [''a.pdf'', ''-o''])"
  by code_simp

section \<open>Unknown flags\<close>

lemma unknown_flag_raises:
  assumes "startswith cmd ''-''"
    and "cmd \<notin> {''-k'', ''--keep'', ''-r'', ''--remove'', ''-a'', ''--angle''}"
  shows "parse_flags operation (cmd # val # rest) = Inl (Raise (NameError ''current''))"
proof -
  from assms(2) have "\<not> (cmd = ''-k'' \<or> cmd = ''--keep'')" "\<not> (cmd = ''-r'' \<or> cmd = ''--remove'')"
    "\<not> (cmd = ''-a'' \<or> cmd = ''--angle'')"
    by blast+
  with assms(1) show ?thesis
    by (simp only: parse_flags.simps list.case if_True if_False not_not simp_thms)
qed

text \<open>
  Claim C3 asks for an error that names the unknown flag. On the arguments
  \<open>a.pdf -x 1\<close> the run ends with the \<open>NameError\<close> of the unbound name
  \<open>current\<close>; no message is printed, and nothing is written.
\<close>

theorem unknown_flag_name_error:
  "main ascending rotate_page [''a.pdf'', ''-x'', ''1''] (one_file 3) =
     \<lparr>raised = Some (NameError ''current''), stdout = [], files = one_file 3\<rparr>"
proof -
  have a: "parse_output_file [''a.pdf'', ''-x'', ''1''] = Inr (''combined.pdf'', [''a.pdf'', ''-x'', ''1''])"
    by code_simp
  have b: "\<not> path_exists (one_file 3) ''combined.pdf''"
    by (simp add: path_exists_def one_file_def)
  have c: "path_isfile (one_file 3) ''a.pdf''"
    by (simp add: path_isfile_def one_file_def)
  have d: "parse_flags (Operation ''a.pdf'') [''-x'', ''1''] = Inl (Raise (NameError ''current''))"
    by (rule unknown_flag_raises) (simp_all add: startswith_def)
  have e: "parse_operations (one_file 3) [''a.pdf'', ''-x'', ''1''] [] = Inl (Raise (NameError ''current''))"
    using c d by (simp del: parse_flags.simps)
  have f: "\<not> ([''a.pdf'', ''-x'', ''1''] = [] \<or> ''-h'' \<in> set [''a.pdf'', ''-x'', ''1'']
         \<or> ''--help'' \<in> set [''a.pdf'', ''-x'', ''1''])"
    by simp
  show ?thesis
    unfolding main_def using a b e f by (simp add: stopped_def del: parse_flags.simps parse_operations.simps)
qed

section \<open>The pages of one operation\<close>

lemma add_pages_Inr:
  "add_pages rot pages ang idxs w = Inr w' \<Longrightarrow>
   \<exists>added. w' = w @ added \<and> list_all2 (page_added rot pages ang) idxs added"
proof (induction idxs arbitrary: w)
  case Nil
  then show ?case by simp
next
  case (Cons i idxs)
  from Cons.prems obtain p where p: "page_at pages i = Inr p"
    by (cases "page_at pages i") simp_all
  show ?case
  proof (cases "ang = 0")
    case True
    with Cons.prems p have "add_pages rot pages ang idxs (w @ [p]) = Inr w'"
      by simp
    from Cons.IH [OF this] obtain added
      where "w' = (w @ [p]) @ added" "list_all2 (page_added rot pages ang) idxs added"
      by blast
    with p True have "w' = w @ (p # added) \<and>
        list_all2 (page_added rot pages ang) (i # idxs) (p # added)"
      by (simp add: page_added_def)
    then show ?thesis by blast
  next
    case False
    with Cons.prems p obtain q where q: "rot ang p = Inr q"
      by (cases "rot ang p") simp_all
    with Cons.prems p False have "add_pages rot pages ang idxs (w @ [q]) = Inr w'"
      by simp
    from Cons.IH [OF this] obtain added
      where "w' = (w @ [q]) @ added" "list_all2 (page_added rot pages ang) idxs added"
      by blast
    with p q False have "w' = w @ (q # added) \<and>
        list_all2 (page_added rot pages ang) (i # idxs) (q # added)"
      by (simp add: page_added_def)
    then show ?thesis by blast
  qed
qed

lemma combine_step:
  assumes "combine iter rot fs (oper # rest) w = Inr w'"
  shows "\<exists>added. contributes iter rot fs oper added \<and>
           combine iter rot fs rest (w @ added) = Inr w'"
proof -
  from assms obtain pages where f: "fs (filename oper) = Some (PdfFile pages)"
    by (auto split: option.splits entry.splits)
  with assms obtain selected where s: "pages_to_keep oper (int (length pages)) = Inr selected"
    by (cases "pages_to_keep oper (int (length pages))") (auto split: exn.splits)
  with assms f obtain w1
    where a: "add_pages rot pages (angle oper) (iter oper (int (length pages)) selected) w = Inr w1"
      and c: "combine iter rot fs rest w1 = Inr w'"
    by (cases "add_pages rot pages (angle oper) (iter oper (int (length pages)) selected) w") auto
  from add_pages_Inr [OF a] obtain added
    where "w1 = w @ added" "list_all2 (page_added rot pages (angle oper)) (iter oper (int (length pages)) selected) added"
    by blast
  with f s c have "contributes iter rot fs oper added \<and>
      combine iter rot fs rest (w @ added) = Inr w'"
    by (simp add: contributes_def)
  then show ?thesis by blast
qed

lemma combine_Inr:
  assumes "combine iter rot fs ops writer = Inr writer'"
  shows "\<exists>adds. writer' = writer @ concat adds \<and> list_all2 (contributes iter rot fs) ops adds"
  using assms
proof (induction ops arbitrary: writer)
  case Nil
  then have "writer' = writer @ concat [] \<and> list_all2 (contributes iter rot fs) [] []"
    by simp
  then show ?case by blast
next
  case (Cons oper rest)
  from combine_step [OF Cons.prems] obtain added
    where a: "contributes iter rot fs oper added"
      and c: "combine iter rot fs rest (writer @ added) = Inr writer'"
    by blast
  from Cons.IH [OF c] obtain adds
    where "writer' = (writer @ added) @ concat adds" "list_all2 (contributes iter rot fs) rest adds"
    by blast
  with a have "writer' = writer @ concat (added # adds) \<and>
      list_all2 (contributes iter rot fs) (oper # rest) (added # adds)"
    by simp
  then show ?case by blast
qed









text \<open>
  An ascending enumeration alone does not give ascending pages: \<open>--keep 0-1\<close> on three
  pages selects the indices -1 and 0, and the index -1 is the last page.
\<close>

lemma negative_index_last_page:
  "combine ascending rotate_page (one_file 3)
     [Operation ''a.pdf''\<lparr>keep := True, page_range := Some ''0-1''\<rparr>] []
     = Inr [(3, 0), (1, 0)]"
  by code_simp

text \<open>
  The order may follow the way the set was built and not only its elements: an
  interpreter may enumerate the indices 8 and 0 as 8, 0 for \<open>--keep 9,1\<close> and as
  0, 8 for \<open>--keep 1,9\<close>, as CPython 3 does.
\<close>

lemma order_follows_the_range:
  "(let iter = (\<lambda>oper N S. if page_range oper = Some ''9,1'' then descending oper N S
                             else ascending oper N S)
    in combine iter rotate_page (one_file 9)
         [Operation ''a.pdf''\<lparr>keep := True, page_range := Some ''9,1''\<rparr>] []
         = Inr [(9, 0), (1, 0)] \<and>
       combine iter rotate_page (one_file 9)
         [Operation ''a.pdf''\<lparr>keep := True, page_range := Some ''1,9''\<rparr>] []
         = Inr [(1, 0), (9, 0)])"
  by code_simp

section \<open>The output is written last\<close>

lemma contributes_no_failure:
  "contributes iter rot fs oper added \<Longrightarrow> \<not> range_or_index_failure iter fs oper"
proof -
  assume c: "contributes iter rot fs oper added"
  then obtain pages selected where f: "fs (filename oper) = Some (PdfFile pages)"
    and s: "pages_to_keep oper (int (length pages)) = Inr selected"
    and l: "list_all2 (page_added rot pages (angle oper)) (iter oper (int (length pages)) selected) added"
    by (auto simp: contributes_def split: option.splits entry.splits sum.splits)
  have "page_at pages i \<noteq> Inl IndexError" if "i \<in> set (iter oper (int (length pages)) selected)" for i
  proof -
    from that l obtain q where "page_added rot pages (angle oper) i q"
      by (auto simp: list_all2_conv_all_nth in_set_conv_nth)
    then show ?thesis
      by (auto simp: page_added_def split: sum.splits)
  qed
  with f s show ?thesis
    by (auto simp: range_or_index_failure_def)
qed

lemma combine_no_failure:
  assumes "combine iter rot fs ops w = Inr w'" and "oper \<in> set ops"
  shows "\<not> range_or_index_failure iter fs oper"
proof -
  from combine_Inr [OF assms(1)] obtain adds
    where "list_all2 (contributes iter rot fs) ops adds"
    by blast
  with assms(2) obtain added where "contributes iter rot fs oper added"
    by (auto simp: list_all2_conv_all_nth in_set_conv_nth)
  then show ?thesis by (rule contributes_no_failure)
qed

lemma files_stopped: "files (stopped st fs) = fs"
  by (cases st) (simp_all add: stopped_def)

lemma main_cases:
  "files (main iter rot args fs) = fs \<or>
   (\<exists>outfile rest ops writer.
      parse_output_file args = Inr (outfile, rest) \<and>
      \<not> path_exists fs outfile \<and>
      parse_operations fs rest [] = Inr ops \<and>
      combine iter rot fs ops [] = Inr writer \<and>
      main iter rot args fs =
        \<lparr>raised = None, stdout = [Saved outfile], files = fs(outfile \<mapsto> PdfFile writer)\<rparr>)"
proof (cases "args = [] \<or> ''-h'' \<in> set args \<or> ''--help'' \<in> set args")
  case True
  then show ?thesis by (simp add: main_def)
next
  case nohelp: False
  show ?thesis
  proof (cases "parse_output_file args")
    case (Inl e)
    with nohelp show ?thesis
      by (cases e) (simp_all add: main_def files_stopped)
  next
    case (Inr pr)
    obtain outfile rest where pr: "pr = (outfile, rest)"
      by (cases pr)
    show ?thesis
    proof (cases "path_exists fs outfile")
      case True
      with nohelp Inr pr show ?thesis
        by (simp add: main_def files_stopped)
    next
      case noout: False
      show ?thesis
      proof (cases "parse_operations fs rest []")
        case (Inl st)
        with nohelp Inr pr noout show ?thesis
          by (simp add: main_def files_stopped)
      next
        case ops: (Inr ops)
        show ?thesis
        proof (cases "combine iter rot fs ops []")
          case (Inl st)
          with nohelp Inr pr noout ops show ?thesis
            by (simp add: main_def files_stopped)
        next
          case w: (Inr writer)
          with nohelp Inr pr noout ops show ?thesis
            by (simp add: main_def)
        qed
      qed
    qed
  qed
qed

text \<open>
  Claim C9. If an operation of the run fails, by a range that does not parse or by a page
  index outside its document, the run leaves the file system as it was. The file system
  changes only when every operation has been processed: the change is then the one write
  of the output file, holding the pages of the writer.
\<close>

theorem write_only_after_all_operations:
  "(\<forall>outfile rest ops.
      parse_output_file args = Inr (outfile, rest) \<longrightarrow>
      parse_operations fs rest [] = Inr ops \<longrightarrow>
      (\<exists>oper\<in>set ops. range_or_index_failure iter fs oper) \<longrightarrow>
      files (main iter rot args fs) = fs) \<and>
   (files (main iter rot args fs) \<noteq> fs \<longrightarrow>
      (\<exists>outfile rest ops writer.
         parse_output_file args = Inr (outfile, rest) \<and>
         parse_operations fs rest [] = Inr ops \<and>
         combine iter rot fs ops [] = Inr writer \<and>
         main iter rot args fs =
           \<lparr>raised = None, stdout = [Saved outfile], files = fs(outfile \<mapsto> PdfFile writer)\<rparr>))"
proof (intro conjI allI impI)
  fix outfile rest ops
  assume p: "parse_output_file args = Inr (outfile, rest)"
    and g: "parse_operations fs rest [] = Inr ops"
    and f: "\<exists>oper\<in>set ops. range_or_index_failure iter fs oper"
  show "files (main iter rot args fs) = fs"
  proof (rule ccontr)
    assume "files (main iter rot args fs) \<noteq> fs"
    with main_cases [of iter rot args fs] p g obtain writer
      where "combine iter rot fs ops [] = Inr writer"
      by auto
    with f combine_no_failure show False
      by blast
  qed
next
  assume "files (main iter rot args fs) \<noteq> fs"
  with main_cases [of iter rot args fs]
  show "\<exists>outfile rest ops writer.
         parse_output_file args = Inr (outfile, rest) \<and>
         parse_operations fs rest [] = Inr ops \<and>
         combine iter rot fs ops [] = Inr writer \<and>
         main iter rot args fs =
           \<lparr>raised = None, stdout = [Saved outfile], files = fs(outfile \<mapsto> PdfFile writer)\<rparr>"
    by blast
qed

text \<open>
  Claim C9 at two runs on a document of three pages: \<open>--keep 5\<close> fails on the page
  index and leaves the file system unchanged; \<open>--keep 2\<close> changes it, by writing
  page 2 to \<open>combined.pdf\<close>.
\<close>

theorem write_only_after_all_operations_witness:
  "files (main ascending rotate_page [''a.pdf'', ''--keep'', ''5''] (one_file 3)) = one_file 3 \<and>
   (\<exists>outfile rest ops writer.
      parse_output_file [''a.pdf'', ''--keep'', ''2''] = Inr (outfile, rest) \<and>
      parse_operations (one_file 3) rest [] = Inr ops \<and>
      combine ascending rotate_page (one_file 3) ops [] = Inr writer \<and>
      main ascending rotate_page [''a.pdf'', ''--keep'', ''2''] (one_file 3) =
        \<lparr>raised = None, stdout = [Saved outfile],
         files = (one_file 3)(outfile \<mapsto> PdfFile writer)\<rparr>)"
proof -
  let ?bad = "Operation ''a.pdf''\<lparr>keep := True, page_range := Some ''5''\<rparr>"
  have a: "parse_output_file [''a.pdf'', ''--keep'', ''5'']
      = Inr (''combined.pdf'', [''a.pdf'', ''--keep'', ''5''])"
    by code_simp
  have b: "parse_operations (one_file 3) [''a.pdf'', ''--keep'', ''5''] [] = Inr [?bad]"
    by code_simp
  have c: "\<exists>oper\<in>set [?bad]. range_or_index_failure ascending (one_file 3) oper"
    by code_simp
  have d: "files (main ascending rotate_page [''a.pdf'', ''--keep'', ''2''] (one_file 3)) ''combined.pdf''
      \<noteq> one_file 3 ''combined.pdf''"
    by code_simp
  then have e: "files (main ascending rotate_page [''a.pdf'', ''--keep'', ''2''] (one_file 3))
      \<noteq> one_file 3"
    by metis
  from write_only_after_all_operations
         [of "[''a.pdf'', ''--keep'', ''5'']" "one_file 3" ascending rotate_page] a b c
  have first: "files (main ascending rotate_page [''a.pdf'', ''--keep'', ''5''] (one_file 3))
      = one_file 3"
    by blast
  from write_only_after_all_operations
         [of "[''a.pdf'', ''--keep'', ''2'']" "one_file 3" ascending rotate_page] e
  have "\<exists>outfile rest ops writer.
      parse_output_file [''a.pdf'', ''--keep'', ''2''] = Inr (outfile, rest) \<and>
      parse_operations (one_file 3) rest [] = Inr ops \<and>
      combine ascending rotate_page (one_file 3) ops [] = Inr writer \<and>
      main ascending rotate_page [''a.pdf'', ''--keep'', ''2''] (one_file 3) =
        \<lparr>raised = None, stdout = [Saved outfile],
         files = (one_file 3)(outfile \<mapsto> PdfFile writer)\<rparr>"
    by blast
  with first show ?thesis
    by blast
qed

end
